theory Spec2Isabelle
  imports Main "HOL-Library.Word"
begin

unbundle bit_operations_syntax

section \<open>Data model\<close>

text \<open>
  A Go \<open>error\<close> is either nil or a value with an error text: \<open>None\<close> is nil,
  \<open>Some s\<close> is an error whose \<open>Error()\<close> text is \<open>s\<close>.
\<close>

type_synonym error = "string option"

text \<open>
  A span handle is the value returned by \<open>startSpan\<close> and captured by the closures.
  The ambient context of a start record is modelled by the active parent span, if any.
\<close>

type_synonym span = nat

type_synonym ctx = "span option"

text \<open>\<open>trace.Details\<close> is an unsigned 64-bit mask.\<close>

type_synonym Details = "64 word"

text \<open>Span attributes, as built by \<open>attribute.Bool\<close>, \<open>attribute.Int\<close> and \<open>otlog.String\<close>.\<close>

datatype attr =
    attribute_Bool string bool
  | attribute_Int string int
  | otlog_String string string

fun key_of :: "attr \<Rightarrow> string" where
  "key_of (attribute_Bool k _) = k"
| "key_of (attribute_Int k _) = k"
| "key_of (otlog_String k _) = k"

datatype status = OK | Error string

text \<open>
  The tracer is the log of the adapter operations it has seen, in order:
  \<open>open(parentContext, name, attributes)\<close>, \<open>annotate(span, attributes)\<close> and
  \<open>close(span, error, attributes)\<close>.
\<close>

datatype event =
    Open span ctx string "attr list"
  | Annotate span "attr list"
  | Close span status "attr list"

type_synonym tracer = "event list"

fun is_Open :: "event \<Rightarrow> bool" where
  "is_Open (Open _ _ _ _) = True"
| "is_Open _ = False"

fun attrs_of :: "event \<Rightarrow> attr list" where
  "attrs_of (Open _ _ _ as) = as"
| "attrs_of (Annotate _ as) = as"
| "attrs_of (Close _ _ as) = as"

definition writes :: "string \<Rightarrow> event \<Rightarrow> bool" where
  "writes k e = (k \<in> set (map key_of (attrs_of e)))"

text \<open>Faults a Go call can raise at run time (a panic).\<close>

datatype fault = NilFuncCall | NilReceiver | ConversionPanic

subsection \<open>Values handed over by the driver\<close>

text \<open>
  A \<open>fmt.Stringer\<close> (the query parameters): the nil interface, or a value whose
  \<open>String()\<close> method either returns a text or panics.
\<close>

datatype stringer = NilStringer | PanickingStringer | GoodStringer string

fun String_of :: "stringer \<Rightarrow> fault + string" where
  "String_of NilStringer = Inl NilReceiver"
| "String_of PanickingStringer = Inl ConversionPanic"
| "String_of (GoodStringer s) = Inr s"

text \<open>
  The result value of a scripting execution: the nil interface, or a value whose
  \<open>Err()\<close> method returns the given error.
\<close>

datatype result = NilResult | Result error

text \<open>The event records of the driver, with the fields the handlers read.\<close>

record RetryLoopStartInfo =
  rs_Context :: ctx
  rs_Idempotent :: bool

record RetryLoopIntermediateInfo =
  ri_Error :: error

record RetryLoopDoneInfo =
  rd_Attempts :: int
  rd_Error :: error

record ScriptingExecuteStartInfo =
  es_Context :: ctx
  es_Query :: string
  es_Parameters :: stringer

record ScriptingExecuteDoneInfo =
  ed_Result :: result
  ed_Error :: error

record ScriptingStreamExecuteStartInfo =
  ss_Context :: ctx
  ss_Query :: string
  ss_Parameters :: stringer

record ScriptingStreamExecuteIntermediateInfo =
  si_Error :: error

record ScriptingStreamExecuteDoneInfo =
  sd_Error :: error

record ScriptingExplainStartInfo =
  xs_Context :: ctx
  xs_Query :: string

record ScriptingExplainDoneInfo =
  xd_Error :: error

record ScriptingCloseStartInfo =
  cs_Context :: ctx

record ScriptingCloseDoneInfo =
  cd_Error :: error

subsection \<open>Handler values\<close>

text \<open>
  A handler is a closure that acts on the tracer. Calling it returns what the Go closure
  returns (the next continuation, if any) together with the tracer afterwards.
\<close>

type_synonym 'd done_handler = "'d \<Rightarrow> tracer \<Rightarrow> tracer"

type_synonym ('m, 'd) intermediate_handler = "'m \<Rightarrow> tracer \<Rightarrow> 'd done_handler \<times> tracer"

type_synonym ('s, 'd) simple_handler = "'s \<Rightarrow> tracer \<Rightarrow> 'd done_handler \<times> tracer"

type_synonym ('s, 'm, 'd) streaming_handler =
  "'s \<Rightarrow> tracer \<Rightarrow> ('m, 'd) intermediate_handler \<times> tracer"

text \<open>The handler structs \<open>trace.Retry\<close> and \<open>trace.Scripting\<close>; \<open>None\<close> is a nil field.\<close>

record trace_Retry =
  OnRetry :: "(RetryLoopStartInfo, RetryLoopIntermediateInfo, RetryLoopDoneInfo)
                streaming_handler option"

record trace_Scripting =
  OnExecute :: "(ScriptingExecuteStartInfo, ScriptingExecuteDoneInfo) simple_handler option"
  OnStreamExecute :: "(ScriptingStreamExecuteStartInfo, ScriptingStreamExecuteIntermediateInfo,
                        ScriptingStreamExecuteDoneInfo) streaming_handler option"
  OnExplain :: "(ScriptingExplainStartInfo, ScriptingExplainDoneInfo) simple_handler option"
  OnClose :: "(ScriptingCloseStartInfo, ScriptingCloseDoneInfo) simple_handler option"

section \<open>Helpers of the bridge\<close>

text \<open>
  Modelled from the spec: \<open>startSpan\<close>, \<open>intermediate\<close> and \<open>finish\<close> are called by
  the constructors and defined outside \<open>retry.go\<close> and \<open>scripting.go\<close>. They are the
  three operations of the tracer adapter: open a span under the parent found in the
  context, annotate an open span, close a span with its final status and attributes.
\<close>

definition fresh_span :: "tracer \<Rightarrow> span" where
  "fresh_span tr = length (filter is_Open tr)"

definition startSpan :: "ctx \<Rightarrow> string \<Rightarrow> attr list \<Rightarrow> tracer \<Rightarrow> span \<times> tracer" where
  "startSpan c name flds tr =
     (let s = fresh_span tr in (s, tr @ [Open s c name flds]))"

text \<open>
  Modelled from the spec: error presence gives the boolean "error" attribute, and a
  non-nil error gives the message attribute with the error text.
\<close>

fun error_attrs :: "error \<Rightarrow> attr list" where
  "error_attrs None = [attribute_Bool ''error'' False]"
| "error_attrs (Some e) = [attribute_Bool ''error'' True, otlog_String ''msg'' e]"

definition intermediate :: "span \<Rightarrow> error \<Rightarrow> tracer \<Rightarrow> tracer" where
  "intermediate s err tr = tr @ [Annotate s (error_attrs err)]"

text \<open>
  Modelled from the spec: status is derived strictly from error presence, absent gives
  OK, present gives Error with the message.
\<close>

fun status_of :: "error \<Rightarrow> status" where
  "status_of None = OK"
| "status_of (Some e) = Error e"

definition finish :: "span \<Rightarrow> error \<Rightarrow> attr list \<Rightarrow> tracer \<Rightarrow> tracer" where
  "finish s err flds tr = tr @ [Close s (status_of err) flds]"

text \<open>
  Modelled from the spec: \<open>safe.Stringer\<close> is the guarded formatter. It attempts the
  natural conversion and substitutes a fixed sentinel string on any failure. The text of
  the sentinel is not given, so it is the parameter \<open>sentinel\<close>.
\<close>

definition safe_Stringer :: "string \<Rightarrow> stringer \<Rightarrow> string" where
  "safe_Stringer sentinel v = (case String_of v of Inl _ \<Rightarrow> sentinel | Inr s \<Rightarrow> s)"

text \<open>
  Modelled from the spec: \<open>safe.Err\<close> is the guarded helper that extracts the error of a
  describable result value; a nil result has no error.
\<close>

fun safe_Err :: "result \<Rightarrow> error" where
  "safe_Err NilResult = None"
| "safe_Err (Result e) = e"

section \<open>The constructors\<close>

subsection \<open>retry.go\<close>

definition Retry_OnRetry ::
  "(RetryLoopStartInfo, RetryLoopIntermediateInfo, RetryLoopDoneInfo) streaming_handler" where
  "Retry_OnRetry info tr =
     (let (start, tr1) =
            startSpan (rs_Context info) ''ydb_retry''
              [attribute_Bool ''idempotent'' (rs_Idempotent info)] tr
      in (\<lambda>info tr.
            (\<lambda>info tr. finish start (rd_Error info)
                          [attribute_Int ''attempts'' (rd_Attempts info)] tr,
             intermediate start (ri_Error info) tr),
          tr1))"

text \<open>
  \<open>Retry\<close>: the result \<open>t\<close> starts as the zero value and the field is assigned only when
  the mask test succeeds. \<open>RetryEvents\<close> is the driver's constant \<open>trace.RetryEvents\<close>.
\<close>

definition Retry :: "Details \<Rightarrow> Details \<Rightarrow> trace_Retry" where
  "Retry RetryEvents details =
     (let t = \<lparr>OnRetry = None\<rparr>
      in if details AND RetryEvents \<noteq> 0
         then t\<lparr>OnRetry := Some Retry_OnRetry\<rparr>
         else t)"

subsection \<open>scripting.go\<close>

definition Scripting_OnExecute ::
  "string \<Rightarrow> (ScriptingExecuteStartInfo, ScriptingExecuteDoneInfo) simple_handler" where
  "Scripting_OnExecute sentinel info tr =
     (let (start, tr1) =
            startSpan (es_Context info) ''ydb_scripting_execute''
              [otlog_String ''query'' (es_Query info),
               otlog_String ''params'' (safe_Stringer sentinel (es_Parameters info))] tr
      in (\<lambda>info tr.
            if ed_Error info = None
            then finish start (safe_Err (ed_Result info)) [] tr
            else finish start (ed_Error info) [] tr,
          tr1))"

definition Scripting_OnStreamExecute ::
  "string \<Rightarrow> (ScriptingStreamExecuteStartInfo, ScriptingStreamExecuteIntermediateInfo,
               ScriptingStreamExecuteDoneInfo) streaming_handler" where
  "Scripting_OnStreamExecute sentinel info tr =
     (let (start, tr1) =
            startSpan (ss_Context info) ''ydb_scripting_stream_execute''
              [otlog_String ''query'' (ss_Query info),
               otlog_String ''params'' (safe_Stringer sentinel (ss_Parameters info))] tr
      in (\<lambda>info tr.
            (\<lambda>info tr. finish start (sd_Error info) [] tr,
             intermediate start (si_Error info) tr),
          tr1))"

definition Scripting_OnExplain ::
  "(ScriptingExplainStartInfo, ScriptingExplainDoneInfo) simple_handler" where
  "Scripting_OnExplain info tr =
     (let (start, tr1) =
            startSpan (xs_Context info) ''ydb_scripting_explain''
              [otlog_String ''query'' (xs_Query info)] tr
      in (\<lambda>info tr. finish start (xd_Error info) [] tr, tr1))"

definition Scripting_OnClose ::
  "(ScriptingCloseStartInfo, ScriptingCloseDoneInfo) simple_handler" where
  "Scripting_OnClose info tr =
     (let (start, tr1) = startSpan (cs_Context info) ''ydb_scripting_close'' [] tr
      in (\<lambda>info tr. finish start (cd_Error info) [] tr, tr1))"

definition zero_Scripting :: trace_Scripting where
  "zero_Scripting =
     \<lparr>OnExecute = None, OnStreamExecute = None, OnExplain = None, OnClose = None\<rparr>"

text \<open>
  \<open>Scripting\<close>: as \<open>Retry\<close>, with the four fields assigned in the order of the source.
  \<open>ScriptingEvents\<close> is the driver's constant \<open>trace.ScriptingEvents\<close>.
\<close>

definition Scripting :: "Details \<Rightarrow> string \<Rightarrow> Details \<Rightarrow> trace_Scripting" where
  "Scripting ScriptingEvents sentinel details =
     (let t = zero_Scripting
      in if details AND ScriptingEvents \<noteq> 0
         then t\<lparr>OnExecute := Some (Scripting_OnExecute sentinel),
                OnStreamExecute := Some (Scripting_OnStreamExecute sentinel),
                OnExplain := Some Scripting_OnExplain,
                OnClose := Some Scripting_OnClose\<rparr>
         else t)"

section \<open>Calling the handlers\<close>

text \<open>
  Calling a func-typed field in Go: a nil func value cannot be called, the call panics
  before anything else happens.
\<close>

definition invoke :: "('a \<Rightarrow> tracer \<Rightarrow> 'b \<times> tracer) option \<Rightarrow> 'a \<Rightarrow> tracer \<Rightarrow> fault + ('b \<times> tracer)" where
  "invoke h a tr = (case h of None \<Rightarrow> Inl NilFuncCall | Some f \<Rightarrow> Inr (f a tr))"

text \<open>
  What a caller can do with a three-level chain once the start handler has returned the
  intermediate handler \<open>k\<close>: call \<open>k\<close> with an intermediate record, which returns a done
  handler, or call a done handler it already holds with a done record. A done handler
  exists only as the value returned by a call of \<open>k\<close>; the run keeps the one returned
  last. A done call with no done handler at hand is not a call sequence of the chain, and
  the run has no result (\<open>None\<close>).
\<close>

datatype ('m, 'd) call = Intermediate 'm | Done 'd

fun drive ::
  "('m, 'd) intermediate_handler \<Rightarrow> 'd done_handler option \<Rightarrow> ('m, 'd) call list \<Rightarrow>
     tracer \<Rightarrow> tracer option" where
  "drive k d [] tr = Some tr"
| "drive k d (Intermediate m # cs) tr = (case k m tr of (d', tr') \<Rightarrow> drive k (Some d') cs tr')"
| "drive k None (Done i # cs) tr = None"
| "drive k (Some d) (Done i # cs) tr = drive k (Some d) cs (d i tr)"

definition run_streaming ::
  "('s, 'm, 'd) streaming_handler \<Rightarrow> 's \<Rightarrow> ('m, 'd) call list \<Rightarrow> tracer \<Rightarrow> tracer option" where
  "run_streaming h s cs tr = (case h s tr of (k, tr1) \<Rightarrow> drive k None cs tr1)"

text \<open>A two-level chain: one start call, then the done handler called with each record.\<close>

definition run_simple ::
  "('s, 'd) simple_handler \<Rightarrow> 's \<Rightarrow> 'd list \<Rightarrow> tracer \<Rightarrow> tracer" where
  "run_simple h s ds tr = (case h s tr of (d, tr1) \<Rightarrow> fold d ds tr1)"


fun is_Close :: "event \<Rightarrow> bool" where
  "is_Close (Close _ _ _) = True"
| "is_Close _ = False"

section \<open>The running status of a span\<close>







section \<open>Properties\<close>

subsection \<open>Basic facts about the constructors and the handlers\<close>

lemma mask_test_pow: "(details AND 2 ^ n \<noteq> (0 :: Details)) = bit details n"
  using bit_iff_and_push_bit_not_eq_0[of details n] by simp

lemma Retry_simps:
  "details AND RetryEvents \<noteq> 0 \<Longrightarrow> Retry RetryEvents details = \<lparr>OnRetry = Some Retry_OnRetry\<rparr>"
  "details AND RetryEvents = 0 \<Longrightarrow> Retry RetryEvents details = \<lparr>OnRetry = None\<rparr>"
  by (simp_all add: Retry_def Let_def)

lemma Scripting_simps:
  "details AND ScriptingEvents \<noteq> 0 \<Longrightarrow>
     Scripting ScriptingEvents sentinel details =
       \<lparr>OnExecute = Some (Scripting_OnExecute sentinel),
        OnStreamExecute = Some (Scripting_OnStreamExecute sentinel),
        OnExplain = Some Scripting_OnExplain,
        OnClose = Some Scripting_OnClose\<rparr>"
  "details AND ScriptingEvents = 0 \<Longrightarrow> Scripting ScriptingEvents sentinel details = zero_Scripting"
  by (simp_all add: Scripting_def Let_def zero_Scripting_def)

lemma OnRetry_Some: "OnRetry (Retry re details) = Some h \<Longrightarrow> h = Retry_OnRetry"
  by (cases "details AND re = 0") (simp_all add: Retry_simps)

lemma OnExecute_Some:
  "OnExecute (Scripting se sentinel details) = Some h \<Longrightarrow> h = Scripting_OnExecute sentinel"
  by (cases "details AND se = 0") (simp_all add: Scripting_simps zero_Scripting_def)

lemma OnStreamExecute_Some:
  "OnStreamExecute (Scripting se sentinel details) = Some h \<Longrightarrow>
     h = Scripting_OnStreamExecute sentinel"
  by (cases "details AND se = 0") (simp_all add: Scripting_simps zero_Scripting_def)

lemma OnExplain_Some:
  "OnExplain (Scripting se sentinel details) = Some h \<Longrightarrow> h = Scripting_OnExplain"
  by (cases "details AND se = 0") (simp_all add: Scripting_simps zero_Scripting_def)

lemma OnClose_Some:
  "OnClose (Scripting se sentinel details) = Some h \<Longrightarrow> h = Scripting_OnClose"
  by (cases "details AND se = 0") (simp_all add: Scripting_simps zero_Scripting_def)

lemma drive_Some:
  assumes k: "\<And>m t. k m t = (D, t @ [a m])" and D: "\<And>d t. D d t = t @ [c d]"
  shows "drive k (Some D) cs tr =
           Some (tr @ map (\<lambda>x. case x of Intermediate m \<Rightarrow> a m | Done d \<Rightarrow> c d) cs)"
proof (induction cs arbitrary: tr)
  case Nil
  show ?case by simp
next
  case (Cons x cs)
  show ?case
  proof (cases x)
    case (Intermediate m)
    then show ?thesis using Cons.IH[of "tr @ [a m]"] by (simp add: k)
  next
    case (Done d)
    then show ?thesis using Cons.IH[of "tr @ [c d]"] by (simp add: D)
  qed
qed

lemma drive_None_Intermediate:
  assumes k: "\<And>m t. k m t = (D, t @ [a m])" and D: "\<And>d t. D d t = t @ [c d]"
  shows "drive k None (Intermediate m # cs) tr =
           Some (tr @ map (\<lambda>x. case x of Intermediate m \<Rightarrow> a m | Done d \<Rightarrow> c d)
                          (Intermediate m # cs))"
  using drive_Some[of k D a c cs "tr @ [a m]", OF k D] by (simp add: k)

lemma Retry_OnRetry_eq:
  "Retry_OnRetry s tr =
     (\<lambda>info t. (\<lambda>info t. finish (fresh_span tr) (rd_Error info)
                            [attribute_Int ''attempts'' (rd_Attempts info)] t,
                 intermediate (fresh_span tr) (ri_Error info) t),
      tr @ [Open (fresh_span tr) (rs_Context s) ''ydb_retry''
              [attribute_Bool ''idempotent'' (rs_Idempotent s)]])"
  by (simp add: Retry_OnRetry_def startSpan_def Let_def)

lemma Scripting_OnStreamExecute_eq:
  "Scripting_OnStreamExecute sentinel s tr =
     (\<lambda>info t. (\<lambda>info t. finish (fresh_span tr) (sd_Error info) [] t,
                 intermediate (fresh_span tr) (si_Error info) t),
      tr @ [Open (fresh_span tr) (ss_Context s) ''ydb_scripting_stream_execute''
              [otlog_String ''query'' (ss_Query s),
               otlog_String ''params'' (safe_Stringer sentinel (ss_Parameters s))]])"
  by (simp add: Scripting_OnStreamExecute_def startSpan_def Let_def)

lemma Scripting_OnExecute_eq:
  "Scripting_OnExecute sentinel s tr =
     (\<lambda>info t. if ed_Error info = None
                then finish (fresh_span tr) (safe_Err (ed_Result info)) [] t
                else finish (fresh_span tr) (ed_Error info) [] t,
      tr @ [Open (fresh_span tr) (es_Context s) ''ydb_scripting_execute''
              [otlog_String ''query'' (es_Query s),
               otlog_String ''params'' (safe_Stringer sentinel (es_Parameters s))]])"
  by (simp add: Scripting_OnExecute_def startSpan_def Let_def)

lemma Scripting_OnExplain_eq:
  "Scripting_OnExplain s tr =
     (\<lambda>info t. finish (fresh_span tr) (xd_Error info) [] t,
      tr @ [Open (fresh_span tr) (xs_Context s) ''ydb_scripting_explain''
              [otlog_String ''query'' (xs_Query s)]])"
  by (simp add: Scripting_OnExplain_def startSpan_def Let_def)

lemma Scripting_OnClose_eq:
  "Scripting_OnClose s tr =
     (\<lambda>info t. finish (fresh_span tr) (cd_Error info) [] t,
      tr @ [Open (fresh_span tr) (cs_Context s) ''ydb_scripting_close'' []])"
  by (simp add: Scripting_OnClose_def startSpan_def Let_def)

lemma fold_append_events:
  assumes D: "\<And>d t. D d t = t @ [c d]"
  shows "fold D ds tr = tr @ map c ds"
  by (induction ds arbitrary: tr) (simp_all add: D)

subsection \<open>The filter gate\<close>

text \<open>
  C10. For every details mask the constructors return a handler struct, and each handler
  field is non-nil exactly when the kind's detail bit is set in the mask; when the bit is
  clear the zero-value struct, with nil handler fields, is returned. The constants
  \<open>RetryEvents\<close> and \<open>ScriptingEvents\<close> are the single bits \<open>n\<close> and \<open>m\<close>.
\<close>

theorem constructors_fields_iff_bit:
  "(OnRetry (Retry (push_bit n 1) details) \<noteq> None) = bit details n
   \<and> (bit details n \<or> Retry (push_bit n 1) details = \<lparr>OnRetry = None\<rparr>)
   \<and> (OnExecute (Scripting (push_bit m 1) sentinel details) \<noteq> None) = bit details m
   \<and> (OnStreamExecute (Scripting (push_bit m 1) sentinel details) \<noteq> None) = bit details m
   \<and> (OnExplain (Scripting (push_bit m 1) sentinel details) \<noteq> None) = bit details m
   \<and> (OnClose (Scripting (push_bit m 1) sentinel details) \<noteq> None) = bit details m
   \<and> (bit details m \<or> Scripting (push_bit m 1) sentinel details = zero_Scripting)"
proof -
  have r: "bit details n \<Longrightarrow> Retry (2 ^ n) details = \<lparr>OnRetry = Some Retry_OnRetry\<rparr>"
    by (rule Retry_simps(1)) (simp add: mask_test_pow)
  have r': "\<not> bit details n \<Longrightarrow> Retry (2 ^ n) details = \<lparr>OnRetry = None\<rparr>"
    by (rule Retry_simps(2)) (use mask_test_pow[of details n] in simp)
  have s: "bit details m \<Longrightarrow> Scripting (2 ^ m) sentinel details =
       \<lparr>OnExecute = Some (Scripting_OnExecute sentinel),
        OnStreamExecute = Some (Scripting_OnStreamExecute sentinel),
        OnExplain = Some Scripting_OnExplain,
        OnClose = Some Scripting_OnClose\<rparr>"
    by (rule Scripting_simps(1)) (simp add: mask_test_pow)
  have s': "\<not> bit details m \<Longrightarrow> Scripting (2 ^ m) sentinel details = zero_Scripting"
    by (rule Scripting_simps(2)) (use mask_test_pow[of details m] in simp)
  show ?thesis
    by (cases "bit details n"; cases "bit details m") (simp_all add: r r' s s' zero_Scripting_def)
qed

subsection \<open>Final status of a span\<close>

text \<open>
  C1 (as the code has it). For every terminal (done) call of every enabled chain the span
  is closed with a status derived from error presence. In the retry, stream-execute,
  explain and close chains the error is the done record's error field: nil gives OK, a
  non-nil error gives Error with that error's text. In the scripting execute chain a
  non-nil error field gives Error with its text, and a nil error field gives the status
  of the error extracted from the record's result value.
\<close>

theorem done_status_from_error:
  "(OnRetry (Retry re details) = Some hr \<longrightarrow>
      fst (fst (hr sR tr) mR tR) dR t =
        t @ [Close (fresh_span tr) (status_of (rd_Error dR))
               [attribute_Int ''attempts'' (rd_Attempts dR)]])
   \<and> (OnStreamExecute (Scripting se sentinel details) = Some hs \<longrightarrow>
      fst (fst (hs sS tr) mS tS) dS t =
        t @ [Close (fresh_span tr) (status_of (sd_Error dS)) []])
   \<and> (OnExplain (Scripting se sentinel details) = Some hx \<longrightarrow>
      fst (hx sX tr) dX t = t @ [Close (fresh_span tr) (status_of (xd_Error dX)) []])
   \<and> (OnClose (Scripting se sentinel details) = Some hc \<longrightarrow>
      fst (hc sC tr) dC t = t @ [Close (fresh_span tr) (status_of (cd_Error dC)) []])
   \<and> (OnExecute (Scripting se sentinel details) = Some he \<longrightarrow>
      fst (he sE tr) dE t =
        t @ [Close (fresh_span tr)
               (case ed_Error dE of
                  Some e \<Rightarrow> Error e
                | None \<Rightarrow> status_of (safe_Err (ed_Result dE))) []])"
proof (intro conjI impI)
  assume "OnRetry (Retry re details) = Some hr"
  then have "hr = Retry_OnRetry" by (rule OnRetry_Some)
  then show "fst (fst (hr sR tr) mR tR) dR t =
        t @ [Close (fresh_span tr) (status_of (rd_Error dR))
               [attribute_Int ''attempts'' (rd_Attempts dR)]]"
    by (simp add: Retry_OnRetry_eq finish_def)
next
  assume "OnStreamExecute (Scripting se sentinel details) = Some hs"
  then have "hs = Scripting_OnStreamExecute sentinel" by (rule OnStreamExecute_Some)
  then show "fst (fst (hs sS tr) mS tS) dS t =
        t @ [Close (fresh_span tr) (status_of (sd_Error dS)) []]"
    by (simp add: Scripting_OnStreamExecute_eq finish_def)
next
  assume "OnExplain (Scripting se sentinel details) = Some hx"
  then have "hx = Scripting_OnExplain" by (rule OnExplain_Some)
  then show "fst (hx sX tr) dX t = t @ [Close (fresh_span tr) (status_of (xd_Error dX)) []]"
    by (simp add: Scripting_OnExplain_eq finish_def)
next
  assume "OnClose (Scripting se sentinel details) = Some hc"
  then have "hc = Scripting_OnClose" by (rule OnClose_Some)
  then show "fst (hc sC tr) dC t = t @ [Close (fresh_span tr) (status_of (cd_Error dC)) []]"
    by (simp add: Scripting_OnClose_eq finish_def)
next
  assume "OnExecute (Scripting se sentinel details) = Some he"
  then have "he = Scripting_OnExecute sentinel" by (rule OnExecute_Some)
  then show "fst (he sE tr) dE t =
        t @ [Close (fresh_span tr)
               (case ed_Error dE of
                  Some e \<Rightarrow> Error e
                | None \<Rightarrow> status_of (safe_Err (ed_Result dE))) []]"
    by (cases "ed_Error dE") (simp_all add: Scripting_OnExecute_eq finish_def)
qed

text \<open>The theorem at one enabled mask and one terminal record per chain.\<close>

theorem done_status_from_error_witness:
  "OnRetry (Retry 1 1) = Some Retry_OnRetry
   \<and> fst (fst (Retry_OnRetry \<lparr>rs_Context = None, rs_Idempotent = True\<rparr> [])
            \<lparr>ri_Error = None\<rparr> []) \<lparr>rd_Attempts = 3, rd_Error = Some ''y''\<rparr> []
       = [Close 0 (Error ''y'') [attribute_Int ''attempts'' 3]]
   \<and> OnStreamExecute (Scripting 1 ''?'' 1) = Some (Scripting_OnStreamExecute ''?'')
   \<and> fst (fst (Scripting_OnStreamExecute ''?''
              \<lparr>ss_Context = None, ss_Query = ''q2'', ss_Parameters = NilStringer\<rparr> [])
            \<lparr>si_Error = None\<rparr> []) \<lparr>sd_Error = Some ''y''\<rparr> []
       = [Close 0 (Error ''y'') []]
   \<and> OnExplain (Scripting 1 ''?'' 1) = Some Scripting_OnExplain
   \<and> fst (Scripting_OnExplain \<lparr>xs_Context = None, xs_Query = ''q''\<rparr> [])
        \<lparr>xd_Error = None\<rparr> [] = [Close 0 OK []]
   \<and> OnClose (Scripting 1 ''?'' 1) = Some Scripting_OnClose
   \<and> fst (Scripting_OnClose \<lparr>cs_Context = None\<rparr> []) \<lparr>cd_Error = None\<rparr> [] = [Close 0 OK []]
   \<and> OnExecute (Scripting 1 ''?'' 1) = Some (Scripting_OnExecute ''?'')
   \<and> fst (Scripting_OnExecute ''?''
         \<lparr>es_Context = None, es_Query = ''q1'', es_Parameters = NilStringer\<rparr> [])
        \<lparr>ed_Result = NilResult, ed_Error = Some ''z''\<rparr> [] = [Close 0 (Error ''z'') []]"
  using done_status_from_error
    [where re = 1 and se = 1 and details = 1 and sentinel = "''?''"
       and hr = Retry_OnRetry and hs = "Scripting_OnStreamExecute ''?''"
       and hx = Scripting_OnExplain and hc = Scripting_OnClose
       and he = "Scripting_OnExecute ''?''"
       and tr = "[]" and t = "[]" and tR = "[]" and tS = "[]"
       and sR = "\<lparr>rs_Context = None, rs_Idempotent = True\<rparr>"
       and mR = "\<lparr>ri_Error = None\<rparr>"
       and dR = "\<lparr>rd_Attempts = 3, rd_Error = Some ''y''\<rparr>"
       and sS = "\<lparr>ss_Context = None, ss_Query = ''q2'', ss_Parameters = NilStringer\<rparr>"
       and mS = "\<lparr>si_Error = None\<rparr>"
       and dS = "\<lparr>sd_Error = Some ''y''\<rparr>"
       and sX = "\<lparr>xs_Context = None, xs_Query = ''q''\<rparr>"
       and dX = "\<lparr>xd_Error = None\<rparr>"
       and sC = "\<lparr>cs_Context = None\<rparr>"
       and dC = "\<lparr>cd_Error = None\<rparr>"
       and sE = "\<lparr>es_Context = None, es_Query = ''q1'', es_Parameters = NilStringer\<rparr>"
       and dE = "\<lparr>ed_Result = NilResult, ed_Error = Some ''z''\<rparr>"]
  by (simp add: Retry_def Scripting_def zero_Scripting_def Let_def fresh_span_def)

text \<open>
  The status is not determined by the error field alone: in the scripting execute chain a
  done record with a nil error and a result value that carries the error "boom" closes
  the span with status Error "boom", where the error field alone would give OK.
\<close>

theorem done_status_counterexample:
  "OnExecute (Scripting 1 ''?'' 1) = Some (Scripting_OnExecute ''?'')
   \<and> run_simple (Scripting_OnExecute ''?'')
        \<lparr>es_Context = None, es_Query = ''q1'', es_Parameters = GoodStringer ''p''\<rparr>
        [\<lparr>ed_Result = Result (Some ''boom''), ed_Error = None\<rparr>] []
       = [Open 0 None ''ydb_scripting_execute''
            [otlog_String ''query'' ''q1'', otlog_String ''params'' ''p''],
          Close 0 (Error ''boom'') []]
   \<and> status_of (ed_Error \<lparr>ed_Result = Result (Some ''boom''), ed_Error = None\<rparr>) = OK"
  by (simp add: Scripting_def zero_Scripting_def Let_def run_simple_def Scripting_OnExecute_def
      startSpan_def fresh_span_def finish_def safe_Stringer_def)

subsection \<open>The tracer log of a run\<close>

lemma run_streaming_Retry:
  "run_streaming Retry_OnRetry s (Intermediate m # cs) tr =
     Some (tr @ Open (fresh_span tr) (rs_Context s) ''ydb_retry''
                  [attribute_Bool ''idempotent'' (rs_Idempotent s)] #
           map (\<lambda>x. case x of
                   Intermediate i \<Rightarrow> Annotate (fresh_span tr) (error_attrs (ri_Error i))
                 | Done d \<Rightarrow> Close (fresh_span tr) (status_of (rd_Error d))
                              [attribute_Int ''attempts'' (rd_Attempts d)])
               (Intermediate m # cs))"
proof -
  let ?sp = "fresh_span tr"
  let ?D = "\<lambda>info t. finish ?sp (rd_Error info) [attribute_Int ''attempts'' (rd_Attempts info)] t"
  let ?k = "\<lambda>info t. (?D, intermediate ?sp (ri_Error info) t)"
  have k: "\<And>i t. ?k i t = (?D, t @ [Annotate ?sp (error_attrs (ri_Error i))])"
    by (simp add: intermediate_def)
  have D: "\<And>d t. ?D d t = t @ [Close ?sp (status_of (rd_Error d))
                                   [attribute_Int ''attempts'' (rd_Attempts d)]]"
    by (simp add: finish_def)
  show ?thesis
    unfolding run_streaming_def Retry_OnRetry_eq prod.case
    by (subst drive_None_Intermediate[of ?k ?D, OF k D]) simp
qed

lemma run_streaming_Scripting:
  "run_streaming (Scripting_OnStreamExecute sentinel) s (Intermediate m # cs) tr =
     Some (tr @ Open (fresh_span tr) (ss_Context s) ''ydb_scripting_stream_execute''
                  [otlog_String ''query'' (ss_Query s),
                   otlog_String ''params'' (safe_Stringer sentinel (ss_Parameters s))] #
           map (\<lambda>x. case x of
                   Intermediate i \<Rightarrow> Annotate (fresh_span tr) (error_attrs (si_Error i))
                 | Done d \<Rightarrow> Close (fresh_span tr) (status_of (sd_Error d)) [])
               (Intermediate m # cs))"
proof -
  let ?sp = "fresh_span tr"
  let ?D = "\<lambda>info t. finish ?sp (sd_Error info) [] t"
  let ?k = "\<lambda>info t. (?D, intermediate ?sp (si_Error info) t)"
  have k: "\<And>i t. ?k i t = (?D, t @ [Annotate ?sp (error_attrs (si_Error i))])"
    by (simp add: intermediate_def)
  have D: "\<And>d t. ?D d t = t @ [Close ?sp (status_of (sd_Error d)) []]"
    by (simp add: finish_def)
  show ?thesis
    unfolding run_streaming_def Scripting_OnStreamExecute_eq prod.case
    by (subst drive_None_Intermediate[of ?k ?D, OF k D]) simp
qed

lemma run_simple_Execute:
  "run_simple (Scripting_OnExecute sentinel) s ds tr =
     tr @ Open (fresh_span tr) (es_Context s) ''ydb_scripting_execute''
            [otlog_String ''query'' (es_Query s),
             otlog_String ''params'' (safe_Stringer sentinel (es_Parameters s))] #
     map (\<lambda>d. Close (fresh_span tr)
                 (status_of (if ed_Error d = None then safe_Err (ed_Result d) else ed_Error d)) [])
         ds"
  unfolding run_simple_def Scripting_OnExecute_eq prod.case
  by (subst fold_append_events[where c = "\<lambda>d. Close (fresh_span tr)
        (status_of (if ed_Error d = None then safe_Err (ed_Result d) else ed_Error d)) []"])
     (simp_all add: finish_def)








lemma annotate_writes_no_retry_key:
  "\<not> writes ''idempotent'' (Annotate sp (error_attrs e))"
  "\<not> writes ''attempts'' (Annotate sp (error_attrs e))"
  by (cases e; simp add: writes_def)+

subsection \<open>The scripting execute chain\<close>

text \<open>
  C5. In the scripting execute chain, when the done record's error field is nil, the done
  handler closes the span with the error that \<open>safe.Err\<close> extracts from the record's
  result value, not with a fixed OK status: a nil error together with a result value that
  carries the error \<open>e\<close> closes the span with status Error \<open>e\<close>.
\<close>

theorem execute_done_uses_result_error:
  assumes "OnExecute (Scripting se sentinel details) = Some he" and "ed_Error d = None"
  shows "fst (he s tr) d t = finish (fresh_span tr) (safe_Err (ed_Result d)) [] t
         \<and> (ed_Result d = Result (Some e) \<longrightarrow>
              fst (he s tr) d t = t @ [Close (fresh_span tr) (Error e) []])"
proof -
  from assms(1) have "he = Scripting_OnExecute sentinel" by (rule OnExecute_Some)
  with assms(2) show ?thesis by (simp add: Scripting_OnExecute_eq finish_def)
qed

text \<open>The theorem at a done record with a nil error and a result carrying "rows lost".\<close>

theorem execute_done_uses_result_error_witness:
  "OnExecute (Scripting 2 ''-'' 3) = Some (Scripting_OnExecute ''-'')
   \<and> ed_Error \<lparr>ed_Result = Result (Some ''rows lost''), ed_Error = None\<rparr> = None
   \<and> fst (Scripting_OnExecute ''-''
             \<lparr>es_Context = None, es_Query = ''SELECT 1'', es_Parameters = GoodStringer ''{}''\<rparr> [])
          \<lparr>ed_Result = Result (Some ''rows lost''), ed_Error = None\<rparr> []
        = finish 0 (safe_Err (Result (Some ''rows lost''))) [] []
   \<and> fst (Scripting_OnExecute ''-''
             \<lparr>es_Context = None, es_Query = ''SELECT 1'', es_Parameters = GoodStringer ''{}''\<rparr> [])
          \<lparr>ed_Result = Result (Some ''rows lost''), ed_Error = None\<rparr> []
        = [Close 0 (Error ''rows lost'') []]"
  using execute_done_uses_result_error
    [where se = 2 and details = 3 and sentinel = "''-''" and he = "Scripting_OnExecute ''-''"
       and d = "\<lparr>ed_Result = Result (Some ''rows lost''), ed_Error = None\<rparr>"
       and s = "\<lparr>es_Context = None, es_Query = ''SELECT 1'', es_Parameters = GoodStringer ''{}''\<rparr>"
       and tr = "[]" and t = "[]" and e = "''rows lost''"]
  by (simp add: Scripting_def zero_Scripting_def Let_def fresh_span_def finish_def)

text \<open>
  C9 (as the code has it). For every enabled scripting execute chain started with query
  text \<open>q\<close>, the start handler opens the span with the attributes query = \<open>q\<close> and
  params = the guarded rendering of the parameters, and a following terminal call whose
  error is nil and whose result value carries no error closes that span with status OK:
  the tracer log grows by exactly that open and that close.
\<close>

theorem execute_scenario_log:
  assumes "OnExecute (Scripting se sentinel details) = Some he"
    and "es_Query s = q" and "ed_Error d = None" and "safe_Err (ed_Result d) = None"
  shows "run_simple he s [d] tr =
           tr @ [Open (fresh_span tr) (es_Context s) ''ydb_scripting_execute''
                   [otlog_String ''query'' q,
                    otlog_String ''params'' (safe_Stringer sentinel (es_Parameters s))],
                 Close (fresh_span tr) OK []]"
proof -
  from assms(1) have "he = Scripting_OnExecute sentinel" by (rule OnExecute_Some)
  with assms(2-4) show ?thesis by (simp add: run_simple_Execute)
qed

text \<open>Scenario A: start with query "q1", then a terminal call with nil error and nil result.\<close>

theorem execute_scenario_log_witness:
  "OnExecute (Scripting 1 ''?'' 1) = Some (Scripting_OnExecute ''?'')
   \<and> es_Query \<lparr>es_Context = None, es_Query = ''q1'', es_Parameters = GoodStringer ''p''\<rparr> = ''q1''
   \<and> ed_Error \<lparr>ed_Result = NilResult, ed_Error = None\<rparr> = None
   \<and> safe_Err (ed_Result \<lparr>ed_Result = NilResult, ed_Error = None\<rparr>) = None
   \<and> run_simple (Scripting_OnExecute ''?'')
        \<lparr>es_Context = None, es_Query = ''q1'', es_Parameters = GoodStringer ''p''\<rparr>
        [\<lparr>ed_Result = NilResult, ed_Error = None\<rparr>] []
      = [Open 0 None ''ydb_scripting_execute''
           [otlog_String ''query'' ''q1'', otlog_String ''params'' ''p''],
         Close 0 OK []]"
  using execute_scenario_log
    [where se = 1 and details = 1 and sentinel = "''?''" and he = "Scripting_OnExecute ''?''"
       and s = "\<lparr>es_Context = None, es_Query = ''q1'', es_Parameters = GoodStringer ''p''\<rparr>"
       and q = "''q1''" and d = "\<lparr>ed_Result = NilResult, ed_Error = None\<rparr>" and tr = "[]"]
  by (simp add: Scripting_def zero_Scripting_def Let_def fresh_span_def safe_Stringer_def)

text \<open>
  A nil error alone does not give the log of scenario A: with a result value carrying the
  error "failed" the span is not closed with status OK.
\<close>

theorem execute_scenario_counterexample:
  "OnExecute (Scripting 1 ''?'' 1) = Some (Scripting_OnExecute ''?'')
   \<and> ed_Error \<lparr>ed_Result = Result (Some ''failed''), ed_Error = None\<rparr> = None
   \<and> run_simple (Scripting_OnExecute ''?'')
        \<lparr>es_Context = None, es_Query = ''q1'', es_Parameters = NilStringer\<rparr>
        [\<lparr>ed_Result = Result (Some ''failed''), ed_Error = None\<rparr>] []
      \<noteq> [Open 0 None ''ydb_scripting_execute''
           [otlog_String ''query'' ''q1'', otlog_String ''params'' ''?''],
         Close 0 OK []]"
  by (simp add: Scripting_def zero_Scripting_def Let_def run_simple_Execute fresh_span_def)

subsection \<open>The guarded formatter\<close>

text \<open>
  C6. For every value whose natural string conversion fails, the guarded formatter returns
  the fixed sentinel string, and the start handlers of the scripting execute and
  stream-execute chains, which render the parameters through it, return normally and open
  the span with params = the sentinel.
\<close>

theorem guarded_formatter_sentinel:
  assumes "String_of v = Inl f"
  shows "safe_Stringer sentinel v = sentinel
   \<and> (OnExecute (Scripting se sentinel details) = Some he \<longrightarrow> es_Parameters sE = v \<longrightarrow>
        snd (he sE tr) =
          tr @ [Open (fresh_span tr) (es_Context sE) ''ydb_scripting_execute''
                  [otlog_String ''query'' (es_Query sE), otlog_String ''params'' sentinel]])
   \<and> (OnStreamExecute (Scripting se sentinel details) = Some hs \<longrightarrow> ss_Parameters sS = v \<longrightarrow>
        snd (hs sS tr) =
          tr @ [Open (fresh_span tr) (ss_Context sS) ''ydb_scripting_stream_execute''
                  [otlog_String ''query'' (ss_Query sS), otlog_String ''params'' sentinel]])"
proof (intro conjI impI)
  from assms show g: "safe_Stringer sentinel v = sentinel" by (simp add: safe_Stringer_def)
  {
    assume "OnExecute (Scripting se sentinel details) = Some he" and "es_Parameters sE = v"
    moreover from this(1) have "he = Scripting_OnExecute sentinel" by (rule OnExecute_Some)
    ultimately show "snd (he sE tr) =
          tr @ [Open (fresh_span tr) (es_Context sE) ''ydb_scripting_execute''
                  [otlog_String ''query'' (es_Query sE), otlog_String ''params'' sentinel]]"
      using g by (simp add: Scripting_OnExecute_eq)
  }
  {
    assume "OnStreamExecute (Scripting se sentinel details) = Some hs" and "ss_Parameters sS = v"
    moreover from this(1) have "hs = Scripting_OnStreamExecute sentinel"
      by (rule OnStreamExecute_Some)
    ultimately show "snd (hs sS tr) =
          tr @ [Open (fresh_span tr) (ss_Context sS) ''ydb_scripting_stream_execute''
                  [otlog_String ''query'' (ss_Query sS), otlog_String ''params'' sentinel]]"
      using g by (simp add: Scripting_OnStreamExecute_eq)
  }
qed

text \<open>The theorem at parameters whose \<open>String()\<close> panics.\<close>

theorem guarded_formatter_sentinel_witness:
  "String_of PanickingStringer = Inl ConversionPanic
   \<and> safe_Stringer ''<sentinel>'' PanickingStringer = ''<sentinel>''
   \<and> OnExecute (Scripting 8 ''<sentinel>'' 8) = Some (Scripting_OnExecute ''<sentinel>'')
   \<and> snd (Scripting_OnExecute ''<sentinel>''
             \<lparr>es_Context = None, es_Query = ''q'', es_Parameters = PanickingStringer\<rparr> [])
        = [Open 0 None ''ydb_scripting_execute''
             [otlog_String ''query'' ''q'', otlog_String ''params'' ''<sentinel>'']]
   \<and> OnStreamExecute (Scripting 8 ''<sentinel>'' 8) = Some (Scripting_OnStreamExecute ''<sentinel>'')
   \<and> snd (Scripting_OnStreamExecute ''<sentinel>''
             \<lparr>ss_Context = None, ss_Query = ''q'', ss_Parameters = PanickingStringer\<rparr> [])
        = [Open 0 None ''ydb_scripting_stream_execute''
             [otlog_String ''query'' ''q'', otlog_String ''params'' ''<sentinel>'']]"
  using guarded_formatter_sentinel
    [where v = PanickingStringer and f = ConversionPanic and sentinel = "''<sentinel>''"
       and se = 8 and details = 8
       and he = "Scripting_OnExecute ''<sentinel>''"
       and hs = "Scripting_OnStreamExecute ''<sentinel>''"
       and sE = "\<lparr>es_Context = None, es_Query = ''q'', es_Parameters = PanickingStringer\<rparr>"
       and sS = "\<lparr>ss_Context = None, ss_Query = ''q'', ss_Parameters = PanickingStringer\<rparr>"
       and tr = "[]"]
  by (simp add: Scripting_def zero_Scripting_def Let_def fresh_span_def)

subsection \<open>Disabled kinds\<close>

text \<open>
  C2 (as the code has it). For every mask in which a kind's detail bit is clear, the
  constructor installs no handler for that kind: every handler field of the returned
  struct is nil. The bridge then has no start handler that could open a span or return a
  continuation, and calling the nil field directly is a nil-function call that faults
  before the tracer is touched.
\<close>

theorem disabled_installs_no_handler:
  "(details AND re = 0 \<longrightarrow>
      OnRetry (Retry re details) = None
      \<and> invoke (OnRetry (Retry re details)) sR tr = Inl NilFuncCall)
   \<and> (details AND se = 0 \<longrightarrow>
      OnExecute (Scripting se sentinel details) = None
      \<and> OnStreamExecute (Scripting se sentinel details) = None
      \<and> OnExplain (Scripting se sentinel details) = None
      \<and> OnClose (Scripting se sentinel details) = None
      \<and> invoke (OnExecute (Scripting se sentinel details)) sE tr = Inl NilFuncCall
      \<and> invoke (OnStreamExecute (Scripting se sentinel details)) sS tr = Inl NilFuncCall
      \<and> invoke (OnExplain (Scripting se sentinel details)) sX tr = Inl NilFuncCall
      \<and> invoke (OnClose (Scripting se sentinel details)) sC tr = Inl NilFuncCall)"
  by (simp add: Retry_simps(2) Scripting_simps(2) zero_Scripting_def invoke_def)

text \<open>The theorem at the mask 4 with \<open>RetryEvents = 1\<close> and \<open>ScriptingEvents = 2\<close>.\<close>

theorem disabled_installs_no_handler_witness:
  "(4 :: Details) AND 1 = 0
   \<and> OnRetry (Retry 1 4) = None
   \<and> invoke (OnRetry (Retry 1 4)) \<lparr>rs_Context = None, rs_Idempotent = True\<rparr> [] = Inl NilFuncCall
   \<and> (4 :: Details) AND 2 = 0
   \<and> OnExecute (Scripting 2 ''?'' 4) = None
   \<and> OnStreamExecute (Scripting 2 ''?'' 4) = None
   \<and> OnExplain (Scripting 2 ''?'' 4) = None
   \<and> OnClose (Scripting 2 ''?'' 4) = None
   \<and> invoke (OnExecute (Scripting 2 ''?'' 4))
         \<lparr>es_Context = None, es_Query = ''q'', es_Parameters = NilStringer\<rparr> [] = Inl NilFuncCall
   \<and> invoke (OnStreamExecute (Scripting 2 ''?'' 4))
         \<lparr>ss_Context = None, ss_Query = ''q'', ss_Parameters = NilStringer\<rparr> [] = Inl NilFuncCall
   \<and> invoke (OnExplain (Scripting 2 ''?'' 4)) \<lparr>xs_Context = None, xs_Query = ''q''\<rparr> []
         = Inl NilFuncCall
   \<and> invoke (OnClose (Scripting 2 ''?'' 4)) \<lparr>cs_Context = None\<rparr> [] = Inl NilFuncCall"
  using disabled_installs_no_handler
    [where details = 4 and re = 1 and se = 2 and sentinel = "''?''" and tr = "[]"
       and sR = "\<lparr>rs_Context = None, rs_Idempotent = True\<rparr>"
       and sE = "\<lparr>es_Context = None, es_Query = ''q'', es_Parameters = NilStringer\<rparr>"
       and sS = "\<lparr>ss_Context = None, ss_Query = ''q'', ss_Parameters = NilStringer\<rparr>"
       and sX = "\<lparr>xs_Context = None, xs_Query = ''q''\<rparr>"
       and sC = "\<lparr>cs_Context = None\<rparr>"]
  by (simp add: invoke_def)

text \<open>
  With the empty mask the constructors do not install a chain of callable no-ops: the
  start call of the retry chain and of the stream-execute chain is a call of a nil func
  value.
\<close>

theorem disabled_not_callable_counterexample:
  "invoke (OnRetry (Retry 1 0)) \<lparr>rs_Context = None, rs_Idempotent = False\<rparr> [] = Inl NilFuncCall
   \<and> invoke (OnStreamExecute (Scripting 1 ''?'' 0))
         \<lparr>ss_Context = None, ss_Query = ''q2'', ss_Parameters = NilStringer\<rparr> [] = Inl NilFuncCall"
  by (simp add: Retry_def Scripting_def zero_Scripting_def Let_def invoke_def)

subsection \<open>Closing a span\<close>



subsection \<open>Three-level chains\<close>

text \<open>
  C4 (as the code has it). For every enabled three-level chain (retry loop, scripting
  stream-execute) and every number N of intermediate calls with N at least one, one start
  call, N intermediate calls and one call of the terminal continuation returned by the
  last of them make the tracer observe exactly one span open, then exactly N annotate
  calls, then exactly one span close, in that order and all on the same span.
\<close>

theorem streaming_chain_log:
  "(OnRetry (Retry re details) = Some hr \<longrightarrow> msR \<noteq> [] \<longrightarrow>
      run_streaming hr sR (map Intermediate msR @ [Done dR]) tr =
        Some (tr @ [Open (fresh_span tr) (rs_Context sR) ''ydb_retry''
                      [attribute_Bool ''idempotent'' (rs_Idempotent sR)]]
                 @ map (\<lambda>i. Annotate (fresh_span tr) (error_attrs (ri_Error i))) msR
                 @ [Close (fresh_span tr) (status_of (rd_Error dR))
                      [attribute_Int ''attempts'' (rd_Attempts dR)]]))
   \<and> (OnStreamExecute (Scripting se sentinel details) = Some hs \<longrightarrow> msS \<noteq> [] \<longrightarrow>
      run_streaming hs sS (map Intermediate msS @ [Done dS]) tr =
        Some (tr @ [Open (fresh_span tr) (ss_Context sS) ''ydb_scripting_stream_execute''
                      [otlog_String ''query'' (ss_Query sS),
                       otlog_String ''params'' (safe_Stringer sentinel (ss_Parameters sS))]]
                 @ map (\<lambda>i. Annotate (fresh_span tr) (error_attrs (si_Error i))) msS
                 @ [Close (fresh_span tr) (status_of (sd_Error dS)) []]))"
proof (intro conjI impI)
  assume "OnRetry (Retry re details) = Some hr" and "msR \<noteq> []"
  then have h: "hr = Retry_OnRetry" and "msR \<noteq> []" by (auto dest: OnRetry_Some)
  then obtain m ms where ms: "msR = m # ms" by (cases msR) auto
  show "run_streaming hr sR (map Intermediate msR @ [Done dR]) tr =
        Some (tr @ [Open (fresh_span tr) (rs_Context sR) ''ydb_retry''
                      [attribute_Bool ''idempotent'' (rs_Idempotent sR)]]
                 @ map (\<lambda>i. Annotate (fresh_span tr) (error_attrs (ri_Error i))) msR
                 @ [Close (fresh_span tr) (status_of (rd_Error dR))
                      [attribute_Int ''attempts'' (rd_Attempts dR)]])"
    using run_streaming_Retry[of sR m "map Intermediate ms @ [Done dR]" tr]
    by (simp add: h ms comp_def)
next
  assume "OnStreamExecute (Scripting se sentinel details) = Some hs" and "msS \<noteq> []"
  then have h: "hs = Scripting_OnStreamExecute sentinel" and "msS \<noteq> []"
    by (auto dest: OnStreamExecute_Some)
  then obtain m ms where ms: "msS = m # ms" by (cases msS) auto
  show "run_streaming hs sS (map Intermediate msS @ [Done dS]) tr =
        Some (tr @ [Open (fresh_span tr) (ss_Context sS) ''ydb_scripting_stream_execute''
                      [otlog_String ''query'' (ss_Query sS),
                       otlog_String ''params'' (safe_Stringer sentinel (ss_Parameters sS))]]
                 @ map (\<lambda>i. Annotate (fresh_span tr) (error_attrs (si_Error i))) msS
                 @ [Close (fresh_span tr) (status_of (sd_Error dS)) []])"
    using run_streaming_Scripting[of sentinel sS m "map Intermediate ms @ [Done dS]" tr]
    by (simp add: h ms comp_def)
qed

text \<open>Scenario B: start, intermediate(nil), intermediate("x"), terminal("y").\<close>

theorem streaming_chain_log_witness:
  "OnRetry (Retry 1 3) = Some Retry_OnRetry
   \<and> [\<lparr>ri_Error = None\<rparr>, \<lparr>ri_Error = Some ''x''\<rparr>] \<noteq> []
   \<and> run_streaming Retry_OnRetry \<lparr>rs_Context = None, rs_Idempotent = True\<rparr>
        (map Intermediate [\<lparr>ri_Error = None\<rparr>, \<lparr>ri_Error = Some ''x''\<rparr>]
           @ [Done \<lparr>rd_Attempts = 3, rd_Error = Some ''y''\<rparr>]) []
      = Some [Open 0 None ''ydb_retry'' [attribute_Bool ''idempotent'' True],
              Annotate 0 [attribute_Bool ''error'' False],
              Annotate 0 [attribute_Bool ''error'' True, otlog_String ''msg'' ''x''],
              Close 0 (Error ''y'') [attribute_Int ''attempts'' 3]]
   \<and> OnStreamExecute (Scripting 2 ''?'' 3) = Some (Scripting_OnStreamExecute ''?'')
   \<and> [\<lparr>si_Error = None\<rparr>, \<lparr>si_Error = Some ''x''\<rparr>] \<noteq> []
   \<and> run_streaming (Scripting_OnStreamExecute ''?'')
        \<lparr>ss_Context = None, ss_Query = ''q2'', ss_Parameters = GoodStringer ''p''\<rparr>
        (map Intermediate [\<lparr>si_Error = None\<rparr>, \<lparr>si_Error = Some ''x''\<rparr>]
           @ [Done \<lparr>sd_Error = Some ''y''\<rparr>]) []
      = Some [Open 0 None ''ydb_scripting_stream_execute''
                [otlog_String ''query'' ''q2'', otlog_String ''params'' ''p''],
              Annotate 0 [attribute_Bool ''error'' False],
              Annotate 0 [attribute_Bool ''error'' True, otlog_String ''msg'' ''x''],
              Close 0 (Error ''y'') []]"
  using streaming_chain_log
    [where re = 1 and se = 2 and details = 3 and sentinel = "''?''" and tr = "[]"
       and hr = Retry_OnRetry and hs = "Scripting_OnStreamExecute ''?''"
       and sR = "\<lparr>rs_Context = None, rs_Idempotent = True\<rparr>"
       and msR = "[\<lparr>ri_Error = None\<rparr>, \<lparr>ri_Error = Some ''x''\<rparr>]"
       and dR = "\<lparr>rd_Attempts = 3, rd_Error = Some ''y''\<rparr>"
       and sS = "\<lparr>ss_Context = None, ss_Query = ''q2'', ss_Parameters = GoodStringer ''p''\<rparr>"
       and msS = "[\<lparr>si_Error = None\<rparr>, \<lparr>si_Error = Some ''x''\<rparr>]"
       and dS = "\<lparr>sd_Error = Some ''y''\<rparr>"]
  by (simp add: Retry_def Scripting_def zero_Scripting_def Let_def fresh_span_def
      safe_Stringer_def)

text \<open>
  With no intermediate call there is no terminal event to deliver: the start handler
  returns the intermediate handler only, and a done handler is obtained by calling it,
  which annotates the span. The sequence start, zero intermediate calls, one terminal
  call has no run, and the shortest run that reaches a close has one annotate before it.
\<close>

theorem no_intermediate_counterexample:
  "OnStreamExecute (Scripting 1 ''?'' 1) = Some (Scripting_OnStreamExecute ''?'')
   \<and> run_streaming (Scripting_OnStreamExecute ''?'')
        \<lparr>ss_Context = None, ss_Query = ''q2'', ss_Parameters = GoodStringer ''p''\<rparr>
        (map Intermediate [] @ [Done \<lparr>sd_Error = None\<rparr>]) [] = None
   \<and> OnRetry (Retry 1 1) = Some Retry_OnRetry
   \<and> run_streaming Retry_OnRetry \<lparr>rs_Context = None, rs_Idempotent = True\<rparr>
        (map Intermediate [] @ [Done \<lparr>rd_Attempts = 1, rd_Error = None\<rparr>]) [] = None
   \<and> run_streaming Retry_OnRetry \<lparr>rs_Context = None, rs_Idempotent = True\<rparr>
        [Intermediate \<lparr>ri_Error = None\<rparr>, Done \<lparr>rd_Attempts = 1, rd_Error = None\<rparr>] []
      = Some [Open 0 None ''ydb_retry'' [attribute_Bool ''idempotent'' True],
              Annotate 0 [attribute_Bool ''error'' False],
              Close 0 OK [attribute_Int ''attempts'' 1]]"
  by (simp add: Retry_def Scripting_def zero_Scripting_def Let_def run_streaming_def
      Retry_OnRetry_eq Scripting_OnStreamExecute_eq intermediate_def finish_def fresh_span_def)

text \<open>
  C7. For every enabled retry-loop chain that is run to completion, the boolean
  "idempotent" attribute is written by exactly one tracer operation, the span open, with
  the start record's idempotency flag, and the integer "attempts" attribute is written by
  exactly one tracer operation, the span close, with the done record's attempt count; no
  intermediate event writes either attribute.
\<close>

theorem retry_attributes_once:
  assumes "OnRetry (Retry re details) = Some hr" and "ms \<noteq> []"
  shows "\<exists>new. run_streaming hr s (map Intermediate ms @ [Done d]) tr = Some (tr @ new)
           \<and> filter (writes ''idempotent'') new =
               [Open (fresh_span tr) (rs_Context s) ''ydb_retry''
                  [attribute_Bool ''idempotent'' (rs_Idempotent s)]]
           \<and> filter (writes ''attempts'') new =
               [Close (fresh_span tr) (status_of (rd_Error d))
                  [attribute_Int ''attempts'' (rd_Attempts d)]]"
proof -
  from assms(1) have h: "hr = Retry_OnRetry" by (rule OnRetry_Some)
  from assms(2) obtain m ms' where ms: "ms = m # ms'" by (cases ms) auto
  let ?sp = "fresh_span tr"
  let ?new = "[Open ?sp (rs_Context s) ''ydb_retry''
                 [attribute_Bool ''idempotent'' (rs_Idempotent s)]]
              @ map (\<lambda>i. Annotate ?sp (error_attrs (ri_Error i))) ms
              @ [Close ?sp (status_of (rd_Error d)) [attribute_Int ''attempts'' (rd_Attempts d)]]"
  have run: "run_streaming hr s (map Intermediate ms @ [Done d]) tr = Some (tr @ ?new)"
    using run_streaming_Retry[of s m "map Intermediate ms' @ [Done d]" tr]
    by (simp add: h ms comp_def)
  have a1: "filter (writes ''idempotent'')
              (map (\<lambda>i. Annotate ?sp (error_attrs (ri_Error i))) ms) = []"
    by (simp add: filter_empty_conv annotate_writes_no_retry_key)
  have a2: "filter (writes ''attempts'')
              (map (\<lambda>i. Annotate ?sp (error_attrs (ri_Error i))) ms) = []"
    by (simp add: filter_empty_conv annotate_writes_no_retry_key)
  have i: "filter (writes ''idempotent'') ?new =
             [Open ?sp (rs_Context s) ''ydb_retry''
                [attribute_Bool ''idempotent'' (rs_Idempotent s)]]"
    unfolding filter_append a1 by (simp add: writes_def)
  have a: "filter (writes ''attempts'') ?new =
             [Close ?sp (status_of (rd_Error d)) [attribute_Int ''attempts'' (rd_Attempts d)]]"
    unfolding filter_append a2 by (simp add: writes_def)
  from run i a show ?thesis by blast
qed

text \<open>The theorem at a non-idempotent retry loop that ends after five attempts.\<close>

theorem retry_attributes_once_witness:
  "OnRetry (Retry 4 4) = Some Retry_OnRetry
   \<and> [\<lparr>ri_Error = Some ''transport''\<rparr>] \<noteq> []
   \<and> (\<exists>new. run_streaming Retry_OnRetry \<lparr>rs_Context = Some 7, rs_Idempotent = False\<rparr>
               (map Intermediate [\<lparr>ri_Error = Some ''transport''\<rparr>]
                  @ [Done \<lparr>rd_Attempts = 5, rd_Error = None\<rparr>]) [] = Some ([] @ new)
            \<and> filter (writes ''idempotent'') new =
                [Open (fresh_span []) (Some 7) ''ydb_retry'' [attribute_Bool ''idempotent'' False]]
            \<and> filter (writes ''attempts'') new =
                [Close (fresh_span []) OK [attribute_Int ''attempts'' 5]])"
  using retry_attributes_once
    [where re = 4 and details = 4 and hr = Retry_OnRetry and tr = "[]"
       and s = "\<lparr>rs_Context = Some 7, rs_Idempotent = False\<rparr>"
       and ms = "[\<lparr>ri_Error = Some ''transport''\<rparr>]"
       and d = "\<lparr>rd_Attempts = 5, rd_Error = None\<rparr>"]
  by (simp add: Retry_def Let_def)

text \<open>
  C8. For every enabled three-level chain and every intermediate record, calling the
  intermediate continuation appends one annotate operation on the open span, with the
  attributes derived from the record's error, closes nothing, and returns a further
  continuation, the done handler of the chain.
\<close>

theorem intermediate_annotates_never_closes:
  "(OnRetry (Retry re details) = Some hr \<longrightarrow>
      snd (fst (hr sR tr) mR t) = t @ [Annotate (fresh_span tr) (error_attrs (ri_Error mR))]
      \<and> filter is_Close (snd (fst (hr sR tr) mR t)) = filter is_Close t
      \<and> fst (fst (hr sR tr) mR t) dR u =
          finish (fresh_span tr) (rd_Error dR) [attribute_Int ''attempts'' (rd_Attempts dR)] u)
   \<and> (OnStreamExecute (Scripting se sentinel details) = Some hs \<longrightarrow>
      snd (fst (hs sS tr) mS t) = t @ [Annotate (fresh_span tr) (error_attrs (si_Error mS))]
      \<and> filter is_Close (snd (fst (hs sS tr) mS t)) = filter is_Close t
      \<and> fst (fst (hs sS tr) mS t) dS u = finish (fresh_span tr) (sd_Error dS) [] u)"
proof (intro conjI impI)
  assume "OnRetry (Retry re details) = Some hr"
  then have h: "hr = Retry_OnRetry" by (rule OnRetry_Some)
  show "snd (fst (hr sR tr) mR t) = t @ [Annotate (fresh_span tr) (error_attrs (ri_Error mR))]"
    by (simp add: h Retry_OnRetry_eq intermediate_def)
  then show "filter is_Close (snd (fst (hr sR tr) mR t)) = filter is_Close t"
    by simp
  show "fst (fst (hr sR tr) mR t) dR u =
          finish (fresh_span tr) (rd_Error dR) [attribute_Int ''attempts'' (rd_Attempts dR)] u"
    by (simp add: h Retry_OnRetry_eq)
next
  assume "OnStreamExecute (Scripting se sentinel details) = Some hs"
  then have h: "hs = Scripting_OnStreamExecute sentinel" by (rule OnStreamExecute_Some)
  show "snd (fst (hs sS tr) mS t) = t @ [Annotate (fresh_span tr) (error_attrs (si_Error mS))]"
    by (simp add: h Scripting_OnStreamExecute_eq intermediate_def)
  then show "filter is_Close (snd (fst (hs sS tr) mS t)) = filter is_Close t"
    by simp
  show "fst (fst (hs sS tr) mS t) dS u = finish (fresh_span tr) (sd_Error dS) [] u"
    by (simp add: h Scripting_OnStreamExecute_eq)
qed

text \<open>The theorem at an intermediate record with error "x" (retry) and with nil error (stream).\<close>

theorem intermediate_annotates_never_closes_witness:
  "OnRetry (Retry 1 1) = Some Retry_OnRetry
   \<and> snd (fst (Retry_OnRetry \<lparr>rs_Context = None, rs_Idempotent = True\<rparr> [])
             \<lparr>ri_Error = Some ''x''\<rparr>
             [Open 0 None ''ydb_retry'' [attribute_Bool ''idempotent'' True]])
       = [Open 0 None ''ydb_retry'' [attribute_Bool ''idempotent'' True],
          Annotate 0 [attribute_Bool ''error'' True, otlog_String ''msg'' ''x'']]
   \<and> filter is_Close
        (snd (fst (Retry_OnRetry \<lparr>rs_Context = None, rs_Idempotent = True\<rparr> [])
                \<lparr>ri_Error = Some ''x''\<rparr>
                [Open 0 None ''ydb_retry'' [attribute_Bool ''idempotent'' True]])) = []
   \<and> fst (fst (Retry_OnRetry \<lparr>rs_Context = None, rs_Idempotent = True\<rparr> [])
             \<lparr>ri_Error = Some ''x''\<rparr>
             [Open 0 None ''ydb_retry'' [attribute_Bool ''idempotent'' True]])
         \<lparr>rd_Attempts = 2, rd_Error = None\<rparr> []
       = [Close 0 OK [attribute_Int ''attempts'' 2]]
   \<and> OnStreamExecute (Scripting 1 ''?'' 1) = Some (Scripting_OnStreamExecute ''?'')
   \<and> snd (fst (Scripting_OnStreamExecute ''?''
                  \<lparr>ss_Context = None, ss_Query = ''q2'', ss_Parameters = NilStringer\<rparr> [])
             \<lparr>si_Error = None\<rparr> [])
       = [Annotate 0 [attribute_Bool ''error'' False]]
   \<and> filter is_Close
        (snd (fst (Scripting_OnStreamExecute ''?''
                     \<lparr>ss_Context = None, ss_Query = ''q2'', ss_Parameters = NilStringer\<rparr> [])
                \<lparr>si_Error = None\<rparr> [])) = []
   \<and> fst (fst (Scripting_OnStreamExecute ''?''
                  \<lparr>ss_Context = None, ss_Query = ''q2'', ss_Parameters = NilStringer\<rparr> [])
             \<lparr>si_Error = None\<rparr> [])
         \<lparr>sd_Error = Some ''y''\<rparr> []
       = [Close 0 (Error ''y'') []]"
  using intermediate_annotates_never_closes
    [where re = 1 and se = 1 and details = 1 and sentinel = "''?''" and tr = "[]"
       and hr = Retry_OnRetry and hs = "Scripting_OnStreamExecute ''?''"
       and sR = "\<lparr>rs_Context = None, rs_Idempotent = True\<rparr>"
       and mR = "\<lparr>ri_Error = Some ''x''\<rparr>"
       and dR = "\<lparr>rd_Attempts = 2, rd_Error = None\<rparr>"
       and sS = "\<lparr>ss_Context = None, ss_Query = ''q2'', ss_Parameters = NilStringer\<rparr>"
       and mS = "\<lparr>si_Error = None\<rparr>"
       and dS = "\<lparr>sd_Error = Some ''y''\<rparr>"
       and u = "[]"]
    intermediate_annotates_never_closes
    [where re = 1 and se = 1 and details = 1 and sentinel = "''?''" and tr = "[]"
       and hr = Retry_OnRetry and hs = "Scripting_OnStreamExecute ''?''"
       and sR = "\<lparr>rs_Context = None, rs_Idempotent = True\<rparr>"
       and mR = "\<lparr>ri_Error = Some ''x''\<rparr>"
       and dR = "\<lparr>rd_Attempts = 2, rd_Error = None\<rparr>"
       and sS = "\<lparr>ss_Context = None, ss_Query = ''q2'', ss_Parameters = NilStringer\<rparr>"
       and mS = "\<lparr>si_Error = None\<rparr>"
       and dS = "\<lparr>sd_Error = Some ''y''\<rparr>"
       and u = "[]"
       and t = "[Open 0 None ''ydb_retry'' [attribute_Bool ''idempotent'' True]]"]
  by (simp add: Retry_def Scripting_def zero_Scripting_def Let_def fresh_span_def finish_def)

end
